theory Spec2Isabelle
  imports Complex_Main "HOL-Library.Word" "HOL-Library.Sublist"
begin

section \<open>JavaScript values used by the renderers\<close>

text \<open>
  A JavaScript string is a sequence of UTF-16 code units: \<^verbatim>\<open>split('')\<close>, \<^verbatim>\<open>length\<close>,
  \<^verbatim>\<open>slice\<close> and the regular expression \<^verbatim>\<open>.\<close> (without the \<^verbatim>\<open>u\<close> and \<^verbatim>\<open>s\<close> flags) all
  count code units. A property that may be \<^verbatim>\<open>undefined\<close> or \<^verbatim>\<open>null\<close> is an option.
  Pixel quantities are JavaScript numbers; the renderers only add and multiply integers
  and the constant 1.5, which is exact, so they are modelled as rationals.
\<close>

type_synonym jschar = "16 word"
type_synonym jsstring = "jschar list"

definition js :: "string \<Rightarrow> jsstring" where
  \<comment> \<open>an ASCII string literal of the source\<close>
  "js s = map (\<lambda>c. of_nat (of_char c)) s"

definition truthy :: "jsstring option \<Rightarrow> bool" where
  \<comment> \<open>\<^verbatim>\<open>!!v\<close> for a string-or-absent value: absent and \<^verbatim>\<open>''\<close> are falsy\<close>
  "truthy v = (case v of None \<Rightarrow> False | Some s \<Rightarrow> s \<noteq> [])"

definition or_empty :: "jsstring option \<Rightarrow> jsstring" where
  \<comment> \<open>\<^verbatim>\<open>v || ''\<close>\<close>
  "or_empty v = (case v of None \<Rightarrow> [] | Some s \<Rightarrow> s)"

definition array_from :: "nat \<Rightarrow> (nat \<Rightarrow> 'a) \<Rightarrow> 'a list" where
  \<comment> \<open>\<^verbatim>\<open>Array.from({ length: n }, (_, i) => f(i))\<close>\<close>
  "array_from n f = map f [0..<n]"

definition char_at :: "jsstring \<Rightarrow> nat \<Rightarrow> jschar option" where
  \<comment> \<open>\<^verbatim>\<open>chars[i] || ''\<close>: a one-unit string is truthy, an index out of range gives the
      empty cell\<close>
  "char_at chars i = (if i < length chars then Some (chars ! i) else None)"

definition line_at :: "jsstring list \<Rightarrow> nat \<Rightarrow> jsstring" where
  \<comment> \<open>\<^verbatim>\<open>lines[i] || ''\<close>\<close>
  "line_at lines i = (if i < length lines then lines ! i else [])"

definition is_line_terminator :: "jschar \<Rightarrow> bool" where
  \<comment> \<open>the code units \<^verbatim>\<open>.\<close> does not match: LF, CR, U+2028, U+2029\<close>
  "is_line_terminator c = (c = 0x0A \<or> c = 0x0D \<or> c = 0x2028 \<or> c = 0x2029)"

definition is_white_space :: "jschar \<Rightarrow> bool" where
  \<comment> \<open>what \<^verbatim>\<open>trim()\<close> strips: WhiteSpace and LineTerminator of ECMAScript\<close>
  "is_white_space c =
     (is_line_terminator c \<or> c = 0x09 \<or> c = 0x0B \<or> c = 0x0C \<or> c = 0x20 \<or> c = 0xA0
      \<or> c = 0x1680 \<or> (0x2000 \<le> c \<and> c \<le> 0x200A) \<or> c = 0x202F \<or> c = 0x205F
      \<or> c = 0x3000 \<or> c = 0xFEFF)"

definition js_trim :: "jsstring \<Rightarrow> jsstring" where
  "js_trim s = rev (dropWhile is_white_space (rev (dropWhile is_white_space s)))"

function match_all_dot :: "nat \<Rightarrow> jsstring \<Rightarrow> jsstring list" where
  \<comment> \<open>\<^verbatim>\<open>s.match(/.{1,c}/g) || []\<close>: at each position the greedy match is the longest run
      of at most \<open>c\<close> units that are not line terminators; an empty run is a failed match
      and the search moves on by one unit; no match at all is \<^verbatim>\<open>null\<close>, hence \<^verbatim>\<open>[]\<close>\<close>
  "match_all_dot c s =
     (if s = [] then []
      else let m = takeWhile (\<lambda>x. \<not> is_line_terminator x) (take c s)
           in if m = [] then match_all_dot c (tl s)
              else m # match_all_dot c (drop (length m) s))"
  by pat_completeness auto
termination
  by (relation "measure (\<lambda>(c, s). length s)") (auto simp: Let_def)

declare match_all_dot.simps [simp del]

section \<open>Character boxes\<close>

text \<open>
  The markup of one row of character boxes, reduced to what depends on the arguments
  and the layout constants: the content of each box (\<open>None\<close> is the empty box), the box
  geometry, and the width the row container declares (\<open>None\<close> when its style declares
  no width).
\<close>

record CharacterBoxes =
  cells :: "jschar option list"
  boxWidthPx :: rat
  boxHeightPx :: rat
  borderWidthPx :: rat
  totalWidthPx :: "rat option"
  gapPx :: rat
  flexWrap :: bool

definition box_chars :: "jsstring option \<Rightarrow> nat \<Rightarrow> jsstring" where
  \<comment> \<open>\<^verbatim>\<open>value ? value.toString().split('').slice(0, boxCount) : []\<close>\<close>
  "box_chars val boxCount =
     (case val of None \<Rightarrow> [] | Some s \<Rightarrow> if s = [] then [] else take boxCount s)"

subsection \<open>Preview page (interactive backend)\<close>

definition renderCharacterBoxes :: "jsstring option \<Rightarrow> nat \<Rightarrow> rat \<Rightarrow> CharacterBoxes" where
  \<comment> \<open>defaults of the source: \<open>boxCount = 20\<close>, \<open>boxWidth = 12\<close>\<close>
  "renderCharacterBoxes val boxCount boxWidth =
     (let boxHeight = 24;
          borderWidth = 3 / 2;
          totalWidth = (boxWidth + (borderWidth * 2)) * of_nat boxCount;
          chars = box_chars val boxCount
      in \<lparr> cells = array_from boxCount (char_at chars),
           boxWidthPx = boxWidth, boxHeightPx = boxHeight, borderWidthPx = borderWidth,
           totalWidthPx = Some totalWidth, gapPx = 0, flexWrap = False \<rparr>)"

subsection \<open>Document backend, \<^verbatim>\<open>src/lib/html-renderer.ts\<close>\<close>

definition CONTAINER_WIDTH :: rat where "CONTAINER_WIDTH = 612"
definition BOX_WIDTH :: rat where "BOX_WIDTH = 20"
definition BOX_HEIGHT :: rat where "BOX_HEIGHT = 24"
definition BORDER_WIDTH :: rat where "BORDER_WIDTH = 3 / 2"

definition renderCharacterBoxesHTML :: "jsstring option \<Rightarrow> nat \<Rightarrow> rat \<Rightarrow> CharacterBoxes" where
  \<comment> \<open>defaults of the source: \<open>boxCount = 20\<close>, \<open>boxWidth = BOX_WIDTH\<close>\<close>
  "renderCharacterBoxesHTML val boxCount boxWidth =
     (let chars = box_chars val boxCount;
          totalWidth = (boxWidth + (BORDER_WIDTH * 2)) * of_nat boxCount
      in \<lparr> cells = array_from boxCount (char_at chars),
           boxWidthPx = boxWidth, boxHeightPx = BOX_HEIGHT, borderWidthPx = BORDER_WIDTH,
           totalWidthPx = Some totalWidth, gapPx = 0, flexWrap = False \<rparr>)"

subsection \<open>Document backend, compact variant (the second generator library)\<close>

definition APPLICANT_BOX_WIDTH :: rat where "APPLICANT_BOX_WIDTH = 20"
definition APPLICANT_BOX_HEIGHT :: rat where "APPLICANT_BOX_HEIGHT = 20"
definition APPLICANT_BORDER_WIDTH :: rat where "APPLICANT_BORDER_WIDTH = 1"

definition renderCharacterBoxesHTML_compact ::
  "jsstring option \<Rightarrow> nat \<Rightarrow> rat \<Rightarrow> CharacterBoxes" where
  \<comment> \<open>the row container's style has \<^verbatim>\<open>flex-wrap: wrap; gap: 1px\<close> and no width\<close>
  "renderCharacterBoxesHTML_compact val boxCount boxWidth =
     (let boxHeight = APPLICANT_BOX_HEIGHT;
          borderWidth = APPLICANT_BORDER_WIDTH;
          chars = box_chars val boxCount
      in \<lparr> cells = array_from boxCount (char_at chars),
           boxWidthPx = boxWidth, boxHeightPx = boxHeight, borderWidthPx = borderWidth,
           totalWidthPx = None, gapPx = 1, flexWrap = True \<rparr>)"

section \<open>Form data\<close>

text \<open>
  The form data is parsed from stored JSON, so every property of an applicant and of
  the form may be absent, and so may an entry of the applicants array.
\<close>

record ApplicantData =
  title :: "jsstring option"
  name :: "jsstring option"
  relation :: "jsstring option"
  sonWifeDaughterOf :: "jsstring option"
  nationality :: "jsstring option"
  age :: "jsstring option"
  dob :: "jsstring option"
  profession :: "jsstring option"
  aadhaar :: "jsstring option"
  residentialStatus :: "jsstring option"
  pan :: "jsstring option"
  itWard :: "jsstring option"
  correspondenceAddress :: "jsstring option"
  telNo :: "jsstring option"
  phone :: "jsstring option"
  email :: "jsstring option"
  photograph :: "jsstring option"
  signature :: "jsstring option"

record FormData =
  applicants :: "ApplicantData option list"
  tower :: "jsstring option"
  apartmentNumber :: "jsstring option"
  bhkType :: "jsstring option"
  floor_field :: "jsstring option"
  carpetAreaSqm :: "jsstring option"
  carpetAreaSqft :: "jsstring option"
  unitPrice :: "jsstring option"
  totalPrice :: "jsstring option"
  declarationDate :: "jsstring option"
  declarationPlace :: "jsstring option"

definition applicant_at :: "FormData \<Rightarrow> nat \<Rightarrow> ApplicantData option" where
  \<comment> \<open>\<^verbatim>\<open>formData.applicants[i]\<close>: out of range is \<^verbatim>\<open>undefined\<close>\<close>
  "applicant_at formData i =
     (if i < length (applicants formData) then applicants formData ! i else None)"

definition signature_of :: "ApplicantData option \<Rightarrow> jsstring option" where
  \<comment> \<open>\<^verbatim>\<open>applicant?.signature\<close>\<close>
  "signature_of a = (case a of None \<Rightarrow> None | Some x \<Rightarrow> signature x)"

definition has_name :: "ApplicantData option \<Rightarrow> bool" where
  \<comment> \<open>\<^verbatim>\<open>applicant && applicant.name\<close> as a condition\<close>
  "has_name a = (case a of None \<Rightarrow> False | Some x \<Rightarrow> truthy (name x))"

section \<open>Rendered forms\<close>

text \<open>
  A rendered form, reduced to its data-dependent parts: the heading, the labelled
  fields in document order, the photograph slot and the signature footer. The static
  markup (style sheet, logo, legal notes) is the same for every input and is left out.
  The result \<open>None\<close> of a renderer is the empty string of the document backends and
  \<^verbatim>\<open>null\<close> of the preview.
\<close>

datatype ImageSlot = Image jsstring | Placeholder jsstring

datatype FieldView =
    Boxes "CharacterBoxes list"
  | TextValue jsstring
  | Checkboxes "(jsstring \<times> bool) list"

datatype Heading =
    SoleOrFirstApplicant int
  | JointApplicant int int
  | ApartmentDetails

record SignatureFooter =
  firstSignature :: "ImageSlot option"
  secondSignature :: "ImageSlot option"

record FormView =
  heading :: Heading
  fieldRows :: "(jsstring \<times> FieldView) list"
  photo :: "ImageSlot option"
  footer :: "SignatureFooter option"

definition applicantHeading :: "int \<Rightarrow> Heading" where
  \<comment> \<open>\<^verbatim>\<open>${n}. ${n === 1 ? 'SOLE OR FIRST APPLICANT(S):-' : `JOINT APPLICANT ${n - 1}:-`}\<close>\<close>
  "applicantHeading applicantNumber =
     (if applicantNumber = 1 then SoleOrFirstApplicant applicantNumber
      else JointApplicant applicantNumber (applicantNumber - 1))"

definition photoSlot :: "jsstring option \<Rightarrow> ImageSlot" where
  "photoSlot src =
     (if truthy src then Image (or_empty src) else Placeholder (js ''Photo''))"

definition multiLineBoxes ::
  "(jsstring option \<Rightarrow> nat \<Rightarrow> rat \<Rightarrow> CharacterBoxes) \<Rightarrow> rat \<Rightarrow> nat \<Rightarrow> nat
     \<Rightarrow> jsstring option \<Rightarrow> CharacterBoxes list" where
  \<comment> \<open>the multi-row fields; the three renderers write this inline with \<open>c = 20\<close> and
      \<open>r = 2\<close> (tax ward) or \<open>r = 3\<close> (correspondence address):
      \<^verbatim>\<open>lines = (v || '').match(/.{1,20}/g) || []\<close>, then
      \<^verbatim>\<open>Array.from({ length: r }, (_, i) => render(lines[i] || '', 20, boxWidth))\<close>\<close>
  "multiLineBoxes render boxWidth c r val =
     (let lines = match_all_dot c (or_empty val)
      in array_from r (\<lambda>i. let lineValue = line_at lines i
                           in render (Some lineValue) c boxWidth))"

definition strip_rupee_comma :: "jsstring \<Rightarrow> jsstring" where
  \<comment> \<open>\<^verbatim>\<open>s.replace(/[R,]/g, '')\<close>, where \<^verbatim>\<open>R\<close> stands for the rupee sign U+20B9\<close>
  "strip_rupee_comma s = filter (\<lambda>c. c \<noteq> 0x20B9 \<and> c \<noteq> 0x2C) s"

definition priceClean :: "jsstring option \<Rightarrow> jsstring" where
  \<comment> \<open>\<^verbatim>\<open>price ? price.replace(/[R,]/g, '') : ''\<close>\<close>
  "priceClean price = (if truthy price then strip_rupee_comma (or_empty price) else [])"

subsection \<open>Document backend, \<^verbatim>\<open>src/lib/html-renderer.ts\<close>\<close>

definition renderSignatureFooterHTML :: "FormData \<Rightarrow> SignatureFooter option" where
  "renderSignatureFooterHTML formData =
     (let hasFirstSignature = signature_of (applicant_at formData 0);
          hasSecondSignature = signature_of (applicant_at formData 1)
      in if \<not> truthy hasFirstSignature \<and> \<not> truthy hasSecondSignature then None
         else Some \<lparr> firstSignature =
                        (if truthy hasFirstSignature
                         then Some (Image (or_empty hasFirstSignature)) else None),
                      secondSignature =
                        (if truthy hasSecondSignature
                         then Some (Image (or_empty hasSecondSignature)) else None) \<rparr>)"

definition residentialStatusCheckboxes :: "jsstring \<Rightarrow> (jsstring \<times> bool) list" where
  \<comment> \<open>label of each checkbox and whether its tick is rendered\<close>
  "residentialStatusCheckboxes rs =
     [(js ''Resident'', rs = js ''Resident''),
      (js ''Non- Resident'', rs = js ''Non-Resident''),
      (js ''Foreign National of Indian Origin'', rs = js ''Foreign National of Indian Origin'')]"

definition renderApplicantFormHTML ::
  "ApplicantData option \<Rightarrow> int \<Rightarrow> FormData \<Rightarrow> FormView option" where
  "renderApplicantFormHTML applicant applicantNumber formData =
     (case applicant of
        None \<Rightarrow> None
      | Some a \<Rightarrow>
          if \<not> truthy (name a) \<and> applicantNumber > 1 then None
          else
            let titleName = js_trim (or_empty (title a) @ js '' '' @ or_empty (name a));
                rs = or_empty (residentialStatus a);
                box = (\<lambda>v. Boxes [renderCharacterBoxesHTML (Some (or_empty v)) 20 BOX_WIDTH])
            in Some \<lparr>
              heading = applicantHeading applicantNumber,
              fieldRows =
                [(js ''Mr./Mrs./Ms./M/s.'',
                    Boxes [renderCharacterBoxesHTML (Some titleName) 20 BOX_WIDTH]),
                 (js ''Son/Wife/Daughter of.'', box (sonWifeDaughterOf a)),
                 (js ''Nationality:'', box (nationality a)),
                 (js ''Age:'', box (age a)),
                 (js ''DOB:'', box (dob a)),
                 (js ''Profession:'', box (profession a)),
                 (js ''Aadhar No.:'', box (aadhaar a)),
                 (js ''Residential Status:'', Checkboxes (residentialStatusCheckboxes rs)),
                 (js ''Income Tax Permanent Account No.:'', box (pan a)),
                 (js ''Ward / Circle / Special Range / Place, where assessed to income tax:'',
                    Boxes (multiLineBoxes renderCharacterBoxesHTML BOX_WIDTH 20 2 (itWard a))),
                 (js ''Correspondence Address:'',
                    Boxes (multiLineBoxes renderCharacterBoxesHTML BOX_WIDTH 20 3
                             (correspondenceAddress a))),
                 (js ''Tel No.:'', box (telNo a)),
                 (js ''Mobile:'', box (phone a)),
                 (js ''E-Mail ID:'', box (email a))],
              photo = Some (photoSlot (photograph a)),
              footer = renderSignatureFooterHTML formData \<rparr>)"

definition bhkTypeDisplay :: "jsstring option \<Rightarrow> jsstring" where
  \<comment> \<open>\<^verbatim>\<open>bhkType === '3bhk' ? '3 BHK' : bhkType === '4bhk' ? '4 BHK' : ''\<close>\<close>
  "bhkTypeDisplay t =
     (if t = Some (js ''3bhk'') then js ''3 BHK''
      else if t = Some (js ''4bhk'') then js ''4 BHK'' else [])"

definition renderApartmentFormHTML :: "FormData \<Rightarrow> FormView" where
  "renderApartmentFormHTML formData =
     (let unitPriceClean = priceClean (unitPrice formData);
          totalPriceClean = priceClean (totalPrice formData)
      in \<lparr> heading = ApartmentDetails,
           fieldRows =
             [(js ''Tower'', TextValue (or_empty (tower formData))),
              (js ''Apartment No.'', TextValue (or_empty (apartmentNumber formData))),
              (js ''Type'', TextValue (bhkTypeDisplay (bhkType formData))),
              (js ''Floor'', TextValue (or_empty (floor_field formData))),
              (js ''Carpet Area: square meter'', TextValue (or_empty (carpetAreaSqm formData))),
              (js ''Carpet Area: square feet'', TextValue (or_empty (carpetAreaSqft formData))),
              (js ''Unit Price (in rupees)'', TextValue unitPriceClean),
              (js ''Total Price (in rupees)'', TextValue totalPriceClean),
              (js ''Date:'', TextValue (or_empty (declarationDate formData))),
              (js ''Place:'', TextValue (or_empty (declarationPlace formData)))],
           photo = None,
           footer = renderSignatureFooterHTML formData \<rparr>)"

subsection \<open>Document backend, compact variant\<close>

definition renderSignatureFooterHTML_compact :: "FormData \<Rightarrow> SignatureFooter option" where
  "renderSignatureFooterHTML_compact formData =
     (let hasFirstSignature = signature_of (applicant_at formData 0);
          hasSecondSignature = signature_of (applicant_at formData 1)
      in if \<not> truthy hasFirstSignature \<and> \<not> truthy hasSecondSignature then None
         else Some \<lparr> firstSignature =
                        (if truthy hasFirstSignature
                         then Some (Image (or_empty hasFirstSignature)) else None),
                      secondSignature =
                        (if truthy hasSecondSignature
                         then Some (Image (or_empty hasSecondSignature)) else None) \<rparr>)"

definition renderApplicantFormHTML_compact ::
  "ApplicantData option \<Rightarrow> int \<Rightarrow> FormData \<Rightarrow> FormView option" where
  \<comment> \<open>the first two labels are the applicant's title and relation; the name row has 15
      boxes and holds the trimmed name alone\<close>
  "renderApplicantFormHTML_compact applicant applicantNumber formData =
     (case applicant of
        None \<Rightarrow> None
      | Some a \<Rightarrow>
          if \<not> truthy (name a) \<and> applicantNumber > 1 then None
          else
            let titleName = js_trim (or_empty (name a));
                rs = or_empty (residentialStatus a);
                box = (\<lambda>v. Boxes [renderCharacterBoxesHTML_compact (Some (or_empty v)) 20
                                    APPLICANT_BOX_WIDTH])
            in Some \<lparr>
              heading = applicantHeading applicantNumber,
              fieldRows =
                [(or_empty (title a),
                    Boxes [renderCharacterBoxesHTML_compact (Some titleName) 15
                             APPLICANT_BOX_WIDTH]),
                 (or_empty (relation a), box (sonWifeDaughterOf a)),
                 (js ''Nationality:'', box (nationality a)),
                 (js ''Age:'', box (age a)),
                 (js ''DOB:'', box (dob a)),
                 (js ''Profession:'', box (profession a)),
                 (js ''Aadhar No.:'', box (aadhaar a)),
                 (js ''Residential Status:'', Checkboxes (residentialStatusCheckboxes rs)),
                 (js ''Income Tax Permanent Account No.:'', box (pan a)),
                 (js ''Ward / Circle / Special Range / Place, where assessed to income tax:'',
                    Boxes (multiLineBoxes renderCharacterBoxesHTML_compact APPLICANT_BOX_WIDTH
                             20 2 (itWard a))),
                 (js ''Correspondence Address:'',
                    Boxes (multiLineBoxes renderCharacterBoxesHTML_compact APPLICANT_BOX_WIDTH
                             20 3 (correspondenceAddress a))),
                 (js ''Tel No.:'', box (telNo a)),
                 (js ''Mobile:'', box (phone a)),
                 (js ''E-Mail ID:'', box (email a))],
              photo = Some (photoSlot (photograph a)),
              footer = renderSignatureFooterHTML_compact formData \<rparr>)"


subsection \<open>Preview page (interactive backend)\<close>

text \<open>
  The preview component holds the fetched form data and the applicant count in its
  state; its render functions close over that state, which is passed here as an
  argument. The state \<^verbatim>\<open>formData\<close> is \<^verbatim>\<open>null\<close> until the data is loaded.
\<close>

definition setApplicantCount :: "int option \<Rightarrow> int" where
  \<comment> \<open>\<^verbatim>\<open>setApplicantCount(data.applicantCount || 1)\<close>\<close>
  "setApplicantCount c = (case c of None \<Rightarrow> 1 | Some n \<Rightarrow> if n = 0 then 1 else n)"

definition residentialStatusCheckboxes_preview ::
  "jsstring option \<Rightarrow> (jsstring \<times> bool) list" where
  \<comment> \<open>\<^verbatim>\<open>applicant.residentialStatus === '...'\<close> on the property itself\<close>
  "residentialStatusCheckboxes_preview rs =
     [(js ''Resident'', rs = Some (js ''Resident'')),
      (js ''Non- Resident'', rs = Some (js ''Non-Resident'')),
      (js ''Foreign National of Indian Origin'',
         rs = Some (js ''Foreign National of Indian Origin''))]"

definition previewSignatureSection ::
  "FormData option \<Rightarrow> ApplicantData \<Rightarrow> SignatureFooter" where
  \<comment> \<open>both slots are always there; a missing image gives the caption\<close>
  "previewSignatureSection formData a =
     (let second = (case formData of None \<Rightarrow> None
                    | Some fd \<Rightarrow> signature_of (applicant_at fd 1))
      in \<lparr> firstSignature =
             Some (if truthy (signature a) then Image (or_empty (signature a))
                   else Placeholder (js ''Sole/First Applicant'')),
           secondSignature =
             Some (if truthy second then Image (or_empty second)
                   else Placeholder (js ''Second Applicant, if any'')) \<rparr>)"

definition PREVIEW_BOX_WIDTH :: rat where
  \<comment> \<open>the constant \<^verbatim>\<open>BOX_WIDTH = 20\<close> local to \<^verbatim>\<open>renderApplicantForm\<close>\<close>
  "PREVIEW_BOX_WIDTH = 20"

definition renderApplicantForm ::
  "FormData option \<Rightarrow> ApplicantData option \<Rightarrow> int \<Rightarrow> FormView option" where
  "renderApplicantForm formData applicant applicantNumber =
     (case applicant of
        None \<Rightarrow> None
      | Some a \<Rightarrow>
          if \<not> truthy (name a) \<and> applicantNumber > 1 then None
          else
            let box = (\<lambda>v. Boxes [renderCharacterBoxes (Some (or_empty v)) 20
                                    PREVIEW_BOX_WIDTH])
            in Some \<lparr>
              heading = applicantHeading applicantNumber,
              fieldRows =
                [(js ''Mr./Mrs./Ms./M/s.'',
                    Boxes [renderCharacterBoxes
                             (Some (js_trim (or_empty (title a) @ js '' '' @ or_empty (name a))))
                             20 PREVIEW_BOX_WIDTH]),
                 (js ''Son/Wife/Daughter of.'', box (sonWifeDaughterOf a)),
                 (js ''Nationality:'', box (nationality a)),
                 (js ''Age:'', box (age a)),
                 (js ''DOB:'', box (dob a)),
                 (js ''Profession:'', box (profession a)),
                 (js ''Aadhar No.:'', box (aadhaar a)),
                 (js ''Residential Status:'',
                    Checkboxes (residentialStatusCheckboxes_preview (residentialStatus a))),
                 (js ''Income Tax Permanent Account No.:'', box (pan a)),
                 (js ''Ward / Circle / Special Range / Place, where assessed to income tax:'',
                    Boxes (multiLineBoxes renderCharacterBoxes PREVIEW_BOX_WIDTH 20 2 (itWard a))),
                 (js ''Correspondence Address:'',
                    Boxes (multiLineBoxes renderCharacterBoxes PREVIEW_BOX_WIDTH 20 3
                             (correspondenceAddress a))),
                 (js ''Tel No.:'', box (telNo a)),
                 (js ''Mobile:'', box (phone a)),
                 (js ''E-Mail ID:'', box (email a))],
              photo = Some (photoSlot (photograph a)),
              footer = (if applicantNumber = 1 then Some (previewSignatureSection formData a)
                        else None) \<rparr>)"

definition bhkTypeDisplay_preview :: "jsstring option \<Rightarrow> jsstring" where
  \<comment> \<open>\<^verbatim>\<open>bhkType ? (bhkType === '3bhk' ? '3 BHK' : '4 BHK') : ''\<close>\<close>
  "bhkTypeDisplay_preview t =
     (if truthy t then (if t = Some (js ''3bhk'') then js ''3 BHK'' else js ''4 BHK'') else [])"

definition renderApartmentForm :: "FormData option \<Rightarrow> FormView option" where
  \<comment> \<open>every row uses the default box width 12 of \<open>renderCharacterBoxes\<close>\<close>
  "renderApartmentForm formDataState =
     (case formDataState of
        None \<Rightarrow> None
      | Some formData \<Rightarrow>
          let box = (\<lambda>v n. Boxes [renderCharacterBoxes (Some v) n 12])
          in Some \<lparr>
            heading = ApartmentDetails,
            fieldRows =
              [(js ''Tower:'', box (or_empty (tower formData)) 15),
               (js ''Apartment No.:'', box (or_empty (apartmentNumber formData)) 15),
               (js ''Type:'', box (bhkTypeDisplay_preview (bhkType formData)) 10),
               (js ''Floor:'', box (or_empty (floor_field formData)) 15),
               (js ''Carpet Area (sq. meter):'', box (or_empty (carpetAreaSqm formData)) 10),
               (js ''(sq. feet):'', box (or_empty (carpetAreaSqft formData)) 10),
               (js ''Unit Price (in rupees):'', box (priceClean (unitPrice formData)) 15),
               (js ''Total Price (in rupees):'', box (priceClean (totalPrice formData)) 15),
               (js ''Date:'', box (or_empty (declarationDate formData)) 10),
               (js ''Place:'', box (or_empty (declarationPlace formData)) 25)],
            photo = None,
            footer = None \<rparr>)"

datatype PageView = StaticPdfPage nat | FormPage nat "FormView option"

definition previewPage :: "FormData \<Rightarrow> int \<Rightarrow> nat \<Rightarrow> PageView option" where
  \<comment> \<open>the body of the page loop of \<open>PreviewPage\<close>; \<open>None\<close> is a skipped page\<close>
  "previewPage formData applicantCount pageNumber =
     (if pageNumber < 5 then Some (StaticPdfPage pageNumber)
      else if pageNumber = 5 then
        Some (FormPage 5 (renderApplicantForm (Some formData) (applicant_at formData 0) 1))
      else if pageNumber = 6 then
        (if applicantCount \<ge> 2 \<and> has_name (applicant_at formData 1)
         then Some (FormPage 6 (renderApplicantForm (Some formData) (applicant_at formData 1) 2))
         else None)
      else if pageNumber = 7 then
        (if applicantCount \<ge> 3 \<and> has_name (applicant_at formData 2)
         then Some (FormPage 7 (renderApplicantForm (Some formData) (applicant_at formData 2) 3))
         else None)
      else if pageNumber = 8 then Some (FormPage 8 (renderApartmentForm (Some formData)))
      else Some (StaticPdfPage pageNumber))"

definition previewPages :: "FormData \<Rightarrow> int \<Rightarrow> nat \<Rightarrow> PageView option list" where
  \<comment> \<open>\<^verbatim>\<open>Array.from(new Array(numPages), (el, index) => ...)\<close> with \<open>pageNumber = index + 1\<close>\<close>
  "previewPages formData applicantCount numPages =
     array_from numPages (\<lambda>index. previewPage formData applicantCount (index + 1))"

section \<open>Observations used in the statements\<close>

definition strip_empty_cells :: "jschar option list \<Rightarrow> jsstring" where
  \<comment> \<open>the text of a row: its cells in order, the empty ones dropped\<close>
  "strip_empty_cells cs = concat (map (\<lambda>c. case c of None \<Rightarrow> [] | Some x \<Rightarrow> [x]) cs)"


definition renderers :: "(jsstring option \<Rightarrow> nat \<Rightarrow> rat \<Rightarrow> CharacterBoxes) set" where
  \<comment> \<open>the three implementations of the character-box row\<close>
  "renderers = {renderCharacterBoxes, renderCharacterBoxesHTML,
                renderCharacterBoxesHTML_compact}"

definition checked_count :: "(jsstring \<times> bool) list \<Rightarrow> nat" where
  "checked_count boxes = length (filter snd boxes)"


definition checkbox_groups :: "FormView \<Rightarrow> (jsstring \<times> bool) list list" where
  \<comment> \<open>the checkbox groups of a rendered form, in document order\<close>
  "checkbox_groups v =
     concat (map (\<lambda>(label, f). case f of Checkboxes bs \<Rightarrow> [bs] | _ \<Rightarrow> []) (fieldRows v))"

definition status_checks :: "jsstring option \<Rightarrow> bool list" where
  \<comment> \<open>which of the three enumerated values the stored value equals, in checkbox order\<close>
  "status_checks rs =
     [rs = Some (js ''Resident''), rs = Some (js ''Non-Resident''),
      rs = Some (js ''Foreign National of Indian Origin'')]"


definition is_high_surrogate :: "jschar \<Rightarrow> bool" where
  \<comment> \<open>the first unit of a surrogate pair\<close>
  "is_high_surrogate c = (0xD800 \<le> c \<and> c \<le> 0xDBFF)"

definition is_low_surrogate :: "jschar \<Rightarrow> bool" where
  \<comment> \<open>the second unit of a surrogate pair\<close>
  "is_low_surrogate c = (0xDC00 \<le> c \<and> c \<le> 0xDFFF)"

fun code_points :: "jsstring \<Rightarrow> nat list" where
  \<comment> \<open>the characters of a string as the specification counts them: its code points, a
      surrogate pair being one character (the string iterator of ECMAScript)\<close>
  "code_points [] = []"
| "code_points [x] = [unat x]"
| "code_points (x # y # xs) =
     (if is_high_surrogate x \<and> is_low_surrogate y
      then (0x10000 + (unat x - 0xD800) * 0x400 + (unat y - 0xDC00)) # code_points xs
      else unat x # code_points (y # xs))"

definition blank_applicant :: ApplicantData where
  \<comment> \<open>the applicant \<^verbatim>\<open>{}\<close>, used to write concrete inputs\<close>
  "blank_applicant =
     \<lparr> title = None, name = None, relation = None, sonWifeDaughterOf = None,
       nationality = None, age = None, dob = None, profession = None, aadhaar = None,
       residentialStatus = None, pan = None, itWard = None, correspondenceAddress = None,
       telNo = None, phone = None, email = None, photograph = None, signature = None \<rparr>"

definition blank_form :: "ApplicantData option list \<Rightarrow> FormData" where
  \<comment> \<open>the form \<^verbatim>\<open>{ applicants: [...] }\<close>, used to write concrete inputs\<close>
  "blank_form as =
     \<lparr> applicants = as, tower = None, apartmentNumber = None, bhkType = None,
       floor_field = None, carpetAreaSqm = None, carpetAreaSqft = None, unitPrice = None,
       totalPrice = None, declarationDate = None, declarationPlace = None \<rparr>"

section \<open>Properties of the character boxes\<close>

lemma length_js: "length (js s) = length s"
  by (simp add: js_def)

lemma array_from_char_at:
  "array_from n (char_at cs) = map Some (take n cs) @ replicate (n - length cs) None"
proof (rule nth_equalityI)
  show "length (array_from n (char_at cs))
      = length (map Some (take n cs) @ replicate (n - length cs) None)"
    by (simp add: array_from_def)
next
  fix i
  assume "i < length (array_from n (char_at cs))"
  then have i: "i < n"
    by (simp add: array_from_def)
  show "array_from n (char_at cs) ! i
      = (map Some (take n cs) @ replicate (n - length cs) None) ! i"
  proof (cases "i < length cs")
    case True
    with i show ?thesis
      by (simp add: array_from_def char_at_def nth_append)
  next
    case False
    with i show ?thesis
      by (simp add: array_from_def char_at_def nth_append)
  qed
qed

lemma box_chars_Some: "box_chars (Some s) n = take n s"
  by (simp add: box_chars_def)

lemma box_chars_None: "box_chars None n = []"
  by (simp add: box_chars_def)

lemma box_cells:
  "array_from n (char_at (box_chars (Some s) n))
     = map Some (take n s) @ replicate (n - length s) None"
  by (simp add: array_from_char_at box_chars_Some min_def)

lemma box_cells_None: "array_from n (char_at (box_chars None n)) = replicate n None"
  by (simp add: array_from_char_at box_chars_None)

lemma cells_renderCharacterBoxes:
  "cells (renderCharacterBoxes val n w) = array_from n (char_at (box_chars val n))"
  by (simp add: renderCharacterBoxes_def Let_def)

lemma cells_renderCharacterBoxesHTML:
  "cells (renderCharacterBoxesHTML val n w) = array_from n (char_at (box_chars val n))"
  by (simp add: renderCharacterBoxesHTML_def Let_def)

lemma cells_renderCharacterBoxesHTML_compact:
  "cells (renderCharacterBoxesHTML_compact val n w) = array_from n (char_at (box_chars val n))"
  by (simp add: renderCharacterBoxesHTML_compact_def Let_def)

lemmas cells_render =
  cells_renderCharacterBoxes cells_renderCharacterBoxesHTML
  cells_renderCharacterBoxesHTML_compact

lemma code_points_bmp:
  "\<forall>x\<in>set s. \<not> is_high_surrogate x \<Longrightarrow> code_points s = map unat s"
  by (induction s rule: code_points.induct) auto

text \<open>
  Claim C3, as amended. In each of the three renderers the row of character boxes for a
  string \<open>s\<close> and a box count \<open>n\<close> has exactly \<open>n\<close> cells, where the length of \<open>s\<close> is counted
  in UTF-16 code units: when \<open>s\<close> has at most \<open>n\<close> code units the cells are the units of \<open>s\<close>
  in order followed by empty cells; when \<open>s\<close> is longer the row is the row of the first \<open>n\<close>
  units of \<open>s\<close>; and an absent or empty value gives \<open>n\<close> empty cells. For a string without
  surrogates the code units are its characters, one per cell. The renderers have no
  failing branch.
\<close>

theorem character_cell_row:
  assumes "render \<in> {renderCharacterBoxes, renderCharacterBoxesHTML,
                      renderCharacterBoxesHTML_compact}"
  shows "length (cells (render (Some s) n w)) = n
       \<and> (length s \<le> n \<longrightarrow>
            cells (render (Some s) n w) = map Some s @ replicate (n - length s) None)
       \<and> (n < length s \<longrightarrow>
            cells (render (Some s) n w) = cells (render (Some (take n s)) n w))
       \<and> cells (render None n w) = replicate n None
       \<and> cells (render (Some []) n w) = replicate n None
       \<and> ((\<forall>x\<in>set s. \<not> is_high_surrogate x) \<and> length (code_points s) \<le> n \<longrightarrow>
            map (map_option unat) (cells (render (Some s) n w))
              = map Some (code_points s) @ replicate (n - length (code_points s)) None)"
proof -
  have "map (map_option unat) (cells (render (Some s) n w))
          = map Some (code_points s) @ replicate (n - length (code_points s)) None"
    if "\<forall>x\<in>set s. \<not> is_high_surrogate x" and "length (code_points s) \<le> n"
  proof -
    from that have cp: "code_points s = map unat s" and "length s \<le> n"
      by (simp_all add: code_points_bmp)
    then show ?thesis
      using assms by (auto simp: cells_render box_cells comp_def)
  qed
  then show ?thesis
    using assms by (auto simp: cells_render box_cells box_cells_None)
qed

theorem character_cell_row_witness:
  "cells (renderCharacterBoxesHTML (Some (js ''Rao'')) 5 20)
     = [Some 0x52, Some 0x61, Some 0x6F, None, None]
   \<and> cells (renderCharacterBoxes (Some (js ''Indian'')) 4 20)
     = cells (renderCharacterBoxes (Some (js ''Indi'')) 4 20)
   \<and> length (cells (renderCharacterBoxesHTML_compact (Some (js ''Rao'')) 5 20)) = 5"
  using character_cell_row [of renderCharacterBoxesHTML "js ''Rao''" 5 20]
    character_cell_row [of renderCharacterBoxes "js ''Indian''" 4 20]
    character_cell_row [of renderCharacterBoxesHTML_compact "js ''Rao''" 5 20]
  by (simp add: js_def numeral_2_eq_2)

text \<open>
  The claim as stated, with the length and the cells counted in characters, fails on a
  character outside the Basic Multilingual Plane: the string of the single character
  U+1F600 is the surrogate pair D83D DE00; a row of one box holds the lone unit D83D, and
  a row of two boxes spends both cells on the one character.
\<close>

theorem astral_character_split:
  "code_points [0xD83D, 0xDE00] = [0x1F600]
   \<and> cells (renderCharacterBoxesHTML (Some [0xD83D, 0xDE00]) 1 20) = [Some 0xD83D]
   \<and> cells (renderCharacterBoxes (Some [0xD83D, 0xDE00]) 1 20) = [Some 0xD83D]
   \<and> cells (renderCharacterBoxesHTML_compact (Some [0xD83D, 0xDE00]) 1 20) = [Some 0xD83D]
   \<and> cells (renderCharacterBoxesHTML (Some [0xD83D, 0xDE00]) 2 20)
       = [Some 0xD83D, Some 0xDE00]
   \<and> strip_empty_cells (cells (renderCharacterBoxesHTML (Some [0xD83D, 0xDE00]) 1 20))
       \<noteq> [0xD83D, 0xDE00]"
  by (simp add: cells_render box_cells strip_empty_cells_def is_high_surrogate_def
      is_low_surrogate_def)

section \<open>The regular-expression chunking\<close>

lemma match_all_dot_Nil [simp]: "match_all_dot c [] = []"
  by (subst match_all_dot.simps) simp

lemma greedy_run_take:
  "takeWhile P (take c s) = take (length (takeWhile P (take c s))) s"
proof -
  let ?m = "takeWhile P (take c s)"
  have "?m = take (length ?m) (take c s)"
    by (rule takeWhile_eq_take)
  moreover have "length ?m \<le> c"
    using length_takeWhile_le [of P "take c s"] by simp
  ultimately show ?thesis
    by (simp add: min_def)
qed

lemma greedy_run_split:
  "takeWhile P (take c s) @ drop (length (takeWhile P (take c s))) s = s"
  using greedy_run_take [of P c s] append_take_drop_id [of "length (takeWhile P (take c s))" s]
  by simp




lemma match_all_dot_chunks:
  "ch \<in> set (match_all_dot c s) \<Longrightarrow>
     ch \<noteq> [] \<and> length ch \<le> c \<and> (\<forall>x\<in>set ch. \<not> is_line_terminator x) \<and> sublist ch s"
proof (induction c s rule: match_all_dot.induct)
  case (1 c s)
  let ?P = "\<lambda>x. \<not> is_line_terminator x"
  let ?m = "takeWhile ?P (take c s)"
  from "1.prems" have ne: "s \<noteq> []"
    by (auto split: if_splits)
  show ?case
  proof (cases "?m = []")
    case True
    have "match_all_dot c s = match_all_dot c (tl s)"
      using ne True by (subst match_all_dot.simps) (simp add: Let_def)
    with "1.prems" have "ch \<in> set (match_all_dot c (tl s))"
      by simp
    from "1.IH"(1) [OF ne refl True this]
    have *: "ch \<noteq> [] \<and> length ch \<le> c \<and> (\<forall>x\<in>set ch. ?P x) \<and> sublist ch (tl s)" .
    then have "sublist ch s"
      using ne sublist_Cons_right [of ch "hd s" "tl s"] by simp
    with * show ?thesis
      by simp
  next
    case False
    have "match_all_dot c s = ?m # match_all_dot c (drop (length ?m) s)"
      using ne False by (subst match_all_dot.simps) (simp add: Let_def)
    with "1.prems" consider "ch = ?m" | "ch \<in> set (match_all_dot c (drop (length ?m) s))"
      by auto
    then show ?thesis
    proof cases
      case 1
      have "length ?m \<le> c"
        using length_takeWhile_le [of ?P "take c s"] by simp
      moreover have "\<forall>x\<in>set ?m. ?P x"
        by (auto dest: set_takeWhileD)
      moreover have "sublist ?m s"
        using greedy_run_split [of ?P c s] sublist_appendI [of ?m "[]" "drop (length ?m) s"]
        by simp
      ultimately show ?thesis
        using False 1 by simp
    next
      case 2
      from "1.IH"(2) [OF ne refl False this]
      have *: "ch \<noteq> [] \<and> length ch \<le> c \<and> (\<forall>x\<in>set ch. ?P x)
                 \<and> sublist ch (drop (length ?m) s)" .
      then have "sublist ch s"
        using sublist_drop [of "length ?m" s] sublist_order.order_trans by blast
      with * show ?thesis
        by simp
    qed
  qed
qed



lemma strip_empty_cells_row:
  "strip_empty_cells (map Some xs @ replicate k None) = xs"
  by (induction xs) (simp_all add: strip_empty_cells_def)




section \<open>Multi-row fields\<close>




lemma multiLineBoxes_nth:
  "i < r \<Longrightarrow> multiLineBoxes render w c r val ! i
     = render (Some (line_at (match_all_dot c (or_empty val)) i)) c w"
  by (simp add: multiLineBoxes_def array_from_def Let_def)

lemma length_multiLineBoxes: "length (multiLineBoxes render w c r val) = r"
  by (simp add: multiLineBoxes_def array_from_def Let_def)





lemma in_multiLineBoxes:
  assumes "row \<in> set (multiLineBoxes render w c r val)"
  obtains i where "i < r"
    and "row = render (Some (line_at (match_all_dot c (or_empty val)) i)) c w"
proof -
  from assms obtain i where "i < length (multiLineBoxes render w c r val)"
    and "row = multiLineBoxes render w c r val ! i"
    by (auto simp: in_set_conv_nth)
  then have "i < r" and "row = render (Some (line_at (match_all_dot c (or_empty val)) i)) c w"
    by (simp_all add: length_multiLineBoxes multiLineBoxes_nth)
  then show thesis
    by (rule that)
qed

lemma line_at_chunk:
  "(\<forall>x\<in>set (line_at (match_all_dot c s) i). \<not> is_line_terminator x)
     \<and> sublist (line_at (match_all_dot c s) i) s
     \<and> length (line_at (match_all_dot c s) i) \<le> c"
proof (cases "i < length (match_all_dot c s)")
  case True
  then have "match_all_dot c s ! i \<in> set (match_all_dot c s)"
    by simp
  from match_all_dot_chunks [OF this] True show ?thesis
    by (simp add: line_at_def)
next
  case False
  then show ?thesis
    by (simp add: line_at_def)
qed

text \<open>
  Claim C10. For each of the three renderers, no cell of a row of a multi-row field holds
  a line terminator, in particular never the line feed; and the text of every row is a
  contiguous piece of the value, so that no row spans a line break.
\<close>

theorem multi_row_no_newline:
  assumes "render \<in> renderers"
    and "row \<in> set (multiLineBoxes render w c r val)"
  shows "(\<forall>x. Some x \<in> set (cells row) \<longrightarrow> \<not> is_line_terminator x)
       \<and> Some 0x0A \<notin> set (cells row)
       \<and> sublist (strip_empty_cells (cells row)) (or_empty val)"
proof -
  let ?s = "or_empty val"
  from assms(2) obtain i where row: "row = render (Some (line_at (match_all_dot c ?s) i)) c w"
    by (rule in_multiLineBoxes)
  let ?line = "line_at (match_all_dot c ?s) i"
  note chunk = line_at_chunk [of c ?s i]
  have cs: "cells row = map Some ?line @ replicate (c - length ?line) None"
    using assms(1) chunk row by (auto simp: renderers_def cells_render box_cells)
  have a: "\<forall>x. Some x \<in> set (cells row) \<longrightarrow> \<not> is_line_terminator x"
    using chunk cs by auto
  have "is_line_terminator 0x0A"
    by (simp add: is_line_terminator_def)
  with a have b: "Some 0x0A \<notin> set (cells row)"
    by blast
  have "strip_empty_cells (cells row) = ?line"
    using cs by (simp add: strip_empty_cells_row)
  with chunk have "sublist (strip_empty_cells (cells row)) ?s"
    by simp
  with a b show ?thesis
    by simp
qed

theorem multi_row_no_newline_witness:
  "Some 0x0A \<notin> set (cells (multiLineBoxes renderCharacterBoxesHTML BOX_WIDTH 20 3
                                (Some [0x61, 0x0A, 0x62]) ! 1))"
proof -
  have r: "renderCharacterBoxesHTML \<in> renderers"
    by (simp add: renderers_def)
  have "multiLineBoxes renderCharacterBoxesHTML BOX_WIDTH 20 3 (Some [0x61, 0x0A, 0x62]) ! 1
          \<in> set (multiLineBoxes renderCharacterBoxesHTML BOX_WIDTH 20 3 (Some [0x61, 0x0A, 0x62]))"
    by (rule nth_mem) (simp add: length_multiLineBoxes)
  from multi_row_no_newline [OF r this] show ?thesis
    by simp
qed

section \<open>Row width\<close>

lemma row_width_preview_document:
  "totalWidthPx (renderCharacterBoxes val n w) = Some (of_nat n * (w + 2 * (3 / 2)))
   \<and> totalWidthPx (renderCharacterBoxesHTML val n w) = Some (of_nat n * (w + 2 * BORDER_WIDTH))
   \<and> totalWidthPx (renderCharacterBoxesHTML val n w) = totalWidthPx (renderCharacterBoxes val n w)"
  by (simp add: renderCharacterBoxes_def renderCharacterBoxesHTML_def BORDER_WIDTH_def Let_def
      mult.commute)

lemma row_width_compact: "totalWidthPx (renderCharacterBoxesHTML_compact val n w) = None"
  by (simp add: renderCharacterBoxesHTML_compact_def Let_def)

text \<open>
  Claim C1. The preview and the document backend of \<^verbatim>\<open>src/lib/html-renderer.ts\<close> declare
  the same row width, \<open>n * (boxWidth + 2 * 1.5)\<close>. The compact document backend, whose
  comment says that it matches the preview page exactly, declares no row width at all,
  draws a border of 1 instead of 1.5 and separates the boxes by a gap of 1: for 20 boxes of
  width 20 the preview row is 460 wide and the compact row has no width.
\<close>

theorem row_width_divergence:
  "totalWidthPx (renderCharacterBoxes (Some []) 20 20) = Some 460
   \<and> totalWidthPx (renderCharacterBoxesHTML (Some []) 20 20) = Some 460
   \<and> totalWidthPx (renderCharacterBoxesHTML_compact (Some []) 20 20) = None
   \<and> borderWidthPx (renderCharacterBoxes (Some []) 20 20) = 3 / 2
   \<and> borderWidthPx (renderCharacterBoxesHTML_compact (Some []) 20 20) = 1
   \<and> gapPx (renderCharacterBoxesHTML_compact (Some []) 20 20) = 1"
  by (simp add: renderCharacterBoxes_def renderCharacterBoxesHTML_def
      renderCharacterBoxesHTML_compact_def BORDER_WIDTH_def APPLICANT_BORDER_WIDTH_def Let_def)

section \<open>Applicant blocks\<close>

text \<open>
  Claim C9. For every applicant number, the primary slot included, each of the three
  applicant-block renderers returns the empty output for a missing applicant record. The
  renderers have no failing branch, and the missing record is tested before anything
  else is read.
\<close>

theorem missing_applicant_renders_nothing:
  "renderApplicantFormHTML None n formData = None
   \<and> renderApplicantFormHTML_compact None n formData = None
   \<and> renderApplicantForm formDataState None n = None"
  by (simp add: renderApplicantFormHTML_def renderApplicantFormHTML_compact_def
      renderApplicantForm_def)

theorem missing_applicant_renders_nothing_witness:
  "renderApplicantFormHTML None 1 (blank_form []) = None
   \<and> renderApplicantFormHTML_compact None 1 (blank_form []) = None
   \<and> renderApplicantForm (Some (blank_form [])) None 1 = None"
  using missing_applicant_renders_nothing [of 1 "blank_form []" "Some (blank_form [])"]
  by simp

section \<open>Residential status\<close>

lemma js_eq_Nil [simp]: "(js s = []) = (s = [])" "([] = js s) = (s = [])"
  by (auto simp: js_def)

lemma js_neq_length: "length s \<noteq> length t \<Longrightarrow> js s \<noteq> js t"
  using length_js [of s] length_js [of t] by auto

lemma status_values_distinct:
  "js ''Resident'' \<noteq> js ''Non-Resident''"
  "js ''Resident'' \<noteq> js ''Foreign National of Indian Origin''"
  "js ''Non-Resident'' \<noteq> js ''Foreign National of Indian Origin''"
  by (rule js_neq_length, simp)+

lemma or_empty_eq_js: "s \<noteq> [] \<Longrightarrow> (or_empty v = js s) = (v = Some (js s))"
  by (cases v) (auto simp: or_empty_def)

lemma checks_document:
  "map snd (residentialStatusCheckboxes (or_empty rs)) = status_checks rs"
  by (simp add: residentialStatusCheckboxes_def status_checks_def or_empty_eq_js)

lemma checks_preview:
  "map snd (residentialStatusCheckboxes_preview rs) = status_checks rs"
  by (simp add: residentialStatusCheckboxes_preview_def status_checks_def)

lemma checked_count_map_snd: "checked_count bs = length (filter id (map snd bs))"
  by (simp add: checked_count_def filter_map comp_def)

lemma status_checks_count: "length (filter id (status_checks rs)) \<le> 1"
  using status_values_distinct by (auto simp: status_checks_def)

lemma groups_document:
  "renderApplicantFormHTML (Some a) n fd = Some page \<Longrightarrow>
     checkbox_groups page = [residentialStatusCheckboxes (or_empty (residentialStatus a))]"
  by (auto simp: renderApplicantFormHTML_def checkbox_groups_def Let_def split: if_splits)

lemma groups_compact:
  "renderApplicantFormHTML_compact (Some a) n fd = Some page \<Longrightarrow>
     checkbox_groups page = [residentialStatusCheckboxes (or_empty (residentialStatus a))]"
  by (auto simp: renderApplicantFormHTML_compact_def checkbox_groups_def Let_def
      split: if_splits)

lemma groups_preview:
  "renderApplicantForm fdo (Some a) n = Some page \<Longrightarrow>
     checkbox_groups page = [residentialStatusCheckboxes_preview (residentialStatus a)]"
  by (auto simp: renderApplicantForm_def checkbox_groups_def Let_def split: if_splits)

text \<open>
  Claim C8. In every rendered applicant form, of any of the three renderers, there is
  exactly one checkbox group; its three checkboxes are ticked exactly when the stored
  residential status equals \<^verbatim>\<open>'Resident'\<close>, \<^verbatim>\<open>'Non-Resident'\<close> and
  \<^verbatim>\<open>'Foreign National of Indian Origin'\<close> respectively, by string equality; at most one of
  them is ticked, and none is when the stored value is absent or is none of the three.
\<close>

theorem residential_status_exclusive:
  assumes "renderApplicantFormHTML (Some a) n fd = Some page
         \<or> renderApplicantFormHTML_compact (Some a) n fd = Some page
         \<or> renderApplicantForm fdo (Some a) n = Some page"
  shows "\<exists>bs. checkbox_groups page = [bs]
            \<and> map snd bs = status_checks (residentialStatus a)
            \<and> checked_count bs \<le> 1
            \<and> (residentialStatus a \<notin> {Some (js ''Resident''), Some (js ''Non-Resident''),
                   Some (js ''Foreign National of Indian Origin'')} \<longrightarrow> checked_count bs = 0)"
proof -
  from assms obtain bs where g: "checkbox_groups page = [bs]"
    and s: "map snd bs = status_checks (residentialStatus a)"
    using groups_document groups_compact groups_preview checks_document checks_preview
    by metis
  have "checked_count bs \<le> 1"
    using s status_checks_count by (simp add: checked_count_map_snd)
  moreover have "residentialStatus a \<notin> {Some (js ''Resident''), Some (js ''Non-Resident''),
                   Some (js ''Foreign National of Indian Origin'')} \<longrightarrow> checked_count bs = 0"
    using s by (simp add: checked_count_map_snd status_checks_def)
  ultimately show ?thesis
    using g s by blast
qed


theorem residential_status_exclusive_witness:
  "\<exists>page bs.
      renderApplicantFormHTML
        (Some (blank_applicant\<lparr>residentialStatus := Some (js ''Non-Resident'')\<rparr>)) 1
        (blank_form []) = Some page
    \<and> checkbox_groups page = [bs]
    \<and> map snd bs = [False, True, False]
    \<and> checked_count bs \<le> 1"
proof -
  let ?a = "blank_applicant\<lparr>residentialStatus := Some (js ''Non-Resident'')\<rparr>"
  obtain page where p: "renderApplicantFormHTML (Some ?a) 1 (blank_form []) = Some page"
    by (simp add: renderApplicantFormHTML_def Let_def)
  then have "renderApplicantFormHTML (Some ?a) 1 (blank_form []) = Some page
           \<or> renderApplicantFormHTML_compact (Some ?a) 1 (blank_form []) = Some page
           \<or> renderApplicantForm None (Some ?a) 1 = Some page"
    by simp
  from residential_status_exclusive [OF this] obtain bs
    where "checkbox_groups page = [bs]"
      and "map snd bs = status_checks (residentialStatus ?a)"
      and "checked_count bs \<le> 1"
    by blast
  moreover have "status_checks (residentialStatus ?a) = [False, True, False]"
    using status_values_distinct by (simp add: status_checks_def)
  ultimately show ?thesis
    using p by auto
qed

section \<open>Which applicant blocks are rendered\<close>

lemma rendered_document:
  "(renderApplicantFormHTML ap n fd \<noteq> None) = (ap \<noteq> None \<and> (has_name ap \<or> n \<le> 1))"
  by (cases ap) (auto simp: renderApplicantFormHTML_def has_name_def Let_def)

lemma rendered_compact:
  "(renderApplicantFormHTML_compact ap n fd \<noteq> None)
     = (ap \<noteq> None \<and> (has_name ap \<or> n \<le> 1))"
  by (cases ap) (auto simp: renderApplicantFormHTML_compact_def has_name_def Let_def)

lemma rendered_preview:
  "(renderApplicantForm fdo ap n \<noteq> None) = (ap \<noteq> None \<and> (has_name ap \<or> n \<le> 1))"
  by (cases ap) (auto simp: renderApplicantForm_def has_name_def Let_def)

lemma preview_page_6:
  "(previewPage fd cnt 6 \<noteq> None) = (2 \<le> cnt \<and> has_name (applicant_at fd 1))"
  by (simp add: previewPage_def)

lemma preview_page_7:
  "(previewPage fd cnt 7 \<noteq> None) = (3 \<le> cnt \<and> has_name (applicant_at fd 2))"
  by (simp add: previewPage_def)

text \<open>
  Claim C2, as amended. Each of the three applicant-block renderers returns a form exactly
  when the record is present and either has a name or the applicant number is at most 1;
  none of them reads the applicant count. The preview page loop renders page 6 exactly
  when the applicant count is at least 2 and the applicant at index 1 has a name, and page 7
  exactly when the count is at least 3 and the applicant at index 2 has a name. Hence an
  applicant at index 1 without a name gives no page 6 and no document output, whatever
  the applicant count.
\<close>

theorem applicant_block_presence:
  "(renderApplicantFormHTML ap n fd \<noteq> None) = (ap \<noteq> None \<and> (has_name ap \<or> n \<le> 1))
   \<and> (renderApplicantFormHTML_compact ap n fd \<noteq> None)
       = (ap \<noteq> None \<and> (has_name ap \<or> n \<le> 1))
   \<and> (renderApplicantForm fdo ap n \<noteq> None) = (ap \<noteq> None \<and> (has_name ap \<or> n \<le> 1))
   \<and> (previewPage fd cnt 6 \<noteq> None) = (2 \<le> cnt \<and> has_name (applicant_at fd 1))
   \<and> (previewPage fd cnt 7 \<noteq> None) = (3 \<le> cnt \<and> has_name (applicant_at fd 2))
   \<and> (\<not> has_name (applicant_at fd 1) \<longrightarrow>
         previewPage fd cnt 6 = None
       \<and> renderApplicantFormHTML (applicant_at fd 1) 2 fd = None
       \<and> renderApplicantFormHTML_compact (applicant_at fd 1) 2 fd = None)"
proof -
  have "\<not> has_name (applicant_at fd 1) \<longrightarrow>
          previewPage fd cnt 6 = None
        \<and> renderApplicantFormHTML (applicant_at fd 1) 2 fd = None
        \<and> renderApplicantFormHTML_compact (applicant_at fd 1) 2 fd = None"
    using preview_page_6 [of fd cnt] rendered_document [of "applicant_at fd 1" 2 fd]
      rendered_compact [of "applicant_at fd 1" 2 fd]
    by (auto simp del: not_None_eq)
  then show ?thesis
    by (simp only: rendered_document rendered_compact rendered_preview preview_page_6
        preview_page_7 simp_thms)
qed

theorem applicant_block_presence_witness:
  "previewPage (blank_form [Some blank_applicant, Some blank_applicant]) 3 6 = None
   \<and> renderApplicantFormHTML
        (applicant_at (blank_form [Some blank_applicant, Some blank_applicant]) 1) 2
        (blank_form [Some blank_applicant, Some blank_applicant]) = None"
proof -
  let ?fd = "blank_form [Some blank_applicant, Some blank_applicant]"
  have "\<not> has_name (applicant_at ?fd 1)"
    by (simp add: has_name_def applicant_at_def blank_form_def blank_applicant_def truthy_def)
  with applicant_block_presence [of "None" 2 ?fd "None" 3] show ?thesis
    by simp
qed

text \<open>
  The claim as stated fails in the preview: with a named applicant at index 1, page 6 is
  skipped when the applicant count is 1 and rendered when it is 2.
\<close>

theorem applicant_count_gates_preview_block:
  "previewPage (blank_form [Some blank_applicant,
                            Some (blank_applicant\<lparr>name := Some (js ''Ravi'')\<rparr>)]) 1 6 = None
   \<and> previewPage (blank_form [Some blank_applicant,
                              Some (blank_applicant\<lparr>name := Some (js ''Ravi'')\<rparr>)]) 2 6 \<noteq> None"
  by (simp add: previewPage_def has_name_def applicant_at_def blank_form_def blank_applicant_def
      truthy_def)

section \<open>Signature footer\<close>













section \<open>Apartment block\<close>





lemma unit_type_display_document:
  "bhkTypeDisplay (Some (js ''3bhk'')) = js ''3 BHK''
   \<and> bhkTypeDisplay (Some (js ''4bhk'')) = js ''4 BHK''
   \<and> (t \<noteq> Some (js ''3bhk'') \<and> t \<noteq> Some (js ''4bhk'') \<longrightarrow> bhkTypeDisplay t = [])"
proof -
  have "js ''4bhk'' \<noteq> js ''3bhk''"
    by (simp add: js_def)
  then show ?thesis
    by (simp add: bhkTypeDisplay_def)
qed

text \<open>
  Claim C7. The document backends map \<^verbatim>\<open>'3bhk'\<close> to \<^verbatim>\<open>'3 BHK'\<close>, \<^verbatim>\<open>'4bhk'\<close> to
  \<^verbatim>\<open>'4 BHK'\<close> and everything else to the empty string. The preview maps every non-empty
  value other than \<^verbatim>\<open>'3bhk'\<close> to \<^verbatim>\<open>'4 BHK'\<close>: for the stored value \<^verbatim>\<open>'2bhk'\<close> the
  document shows an empty type and the preview shows \<^verbatim>\<open>4 BHK\<close>.
\<close>

theorem unit_type_display_preview_divergence:
  "bhkTypeDisplay (Some (js ''2bhk'')) = []
   \<and> bhkTypeDisplay_preview (Some (js ''2bhk'')) = js ''4 BHK''
   \<and> map_option (\<lambda>page. fieldRows page ! 2)
        (renderApartmentForm (Some ((blank_form [])\<lparr>bhkType := Some (js ''2bhk'')\<rparr>)))
       = Some (js ''Type:'', Boxes [renderCharacterBoxes (Some (js ''4 BHK'')) 10 12])
   \<and> fieldRows (renderApartmentFormHTML ((blank_form [])\<lparr>bhkType := Some (js ''2bhk'')\<rparr>)) ! 2
       = (js ''Type'', TextValue [])"
proof -
  have d: "js ''2bhk'' \<noteq> js ''3bhk''" "js ''2bhk'' \<noteq> js ''4bhk''"
    by (simp_all add: js_def)
  then have "bhkTypeDisplay (Some (js ''2bhk'')) = []"
    and "bhkTypeDisplay_preview (Some (js ''2bhk'')) = js ''4 BHK''"
    by (simp_all add: bhkTypeDisplay_def bhkTypeDisplay_preview_def truthy_def)
  then show ?thesis
    by (simp add: renderApartmentForm_def renderApartmentFormHTML_def Let_def blank_form_def)
qed

end
